theory Spec2Isabelle
  imports Main "HOL-Library.AList"
begin

section \<open>Byte strings\<close>

text \<open>
  Go strings are byte sequences; they are modelled as \<^typ>\<open>string\<close> (a list of
  \<^typ>\<open>char\<close>, one per byte). Slicing \<open>s[:n]\<close> is \<^const>\<open>take\<close>, \<open>s[n:]\<close> is
  \<^const>\<open>drop\<close>; every index read below is guarded the way the source guards it.
\<close>

definition backslash :: char where
  "backslash = CHR 0x5C"

text \<open>\<open>strings.IndexByte\<close>: the index of the first occurrence of a byte, \<open>-1\<close> as \<open>None\<close>.\<close>

fun IndexByte :: "string \<Rightarrow> char \<Rightarrow> nat option" where
  "IndexByte [] c = None"
| "IndexByte (x # xs) c = (if x = c then Some 0 else map_option Suc (IndexByte xs c))"

lemma IndexByte_less: "IndexByte s c = Some pos \<Longrightarrow> pos < length s"
  by (induction s arbitrary: pos) (auto split: if_splits)

lemma IndexByte_nth: "IndexByte s c = Some pos \<Longrightarrow> s ! pos = c"
  by (induction s arbitrary: pos) (auto split: if_splits)

lemma IndexByte_None: "IndexByte s c = None \<longleftrightarrow> c \<notin> set s"
  by (induction s) auto

section \<open>cfg.ParseFieldSelector\<close>

text \<open>
  The loop of \<open>ParseFieldSelector\<close>, with its three variables \<open>result\<close>, \<open>tail\<close> and
  \<open>selector\<close> as arguments. Each iteration looks for the first dot; the three branches
  are the escaped dot, the doubled dot and the plain separator, in the order of the source.
\<close>

function ParseFieldSelector_loop :: "string list \<Rightarrow> string \<Rightarrow> string \<Rightarrow> string list" where
  "ParseFieldSelector_loop result tail selector =
     (case IndexByte selector CHR ''.'' of
        None \<Rightarrow>
          (if length selector + length tail \<noteq> 0 then result @ [tail @ selector] else result)
      | Some pos \<Rightarrow>
          if pos > 0 \<and> selector ! (pos - 1) = backslash then
            ParseFieldSelector_loop result (tail @ take (pos - 1) selector @ ''.'')
              (drop (pos + 1) selector)
          else if length selector > pos + 1 \<and> selector ! (pos + 1) = CHR ''.'' then
            ParseFieldSelector_loop result (take (pos + 1) selector) (drop (pos + 2) selector)
          else
            ParseFieldSelector_loop (result @ [tail @ take pos selector]) ''''
              (drop (pos + 1) selector))"
  by pat_completeness auto
termination
  by (relation "measure (\<lambda>(result, tail, selector). length selector)")
     (auto dest: IndexByte_less)

definition ParseFieldSelector :: "string \<Rightarrow> string list" where
  "ParseFieldSelector selector = ParseFieldSelector_loop [] '''' selector"

declare ParseFieldSelector_loop.simps [simp del]

text \<open>
  The selector syntax as the specification words it, for comparison with the loop above:
  the selector is read left to right, \<open>\\.\<close> and \<open>..\<close> each add one dot to the
  component being built, any other dot ends the component, and every other byte is added
  to it. An empty last component is not reported, as in the source.
\<close>

fun selector_spec_loop :: "string \<Rightarrow> string \<Rightarrow> string list" where
  "selector_spec_loop cur [] = (if cur = [] then [] else [cur])"
| "selector_spec_loop cur [c] = (if c = CHR ''.'' then [cur] else [cur @ [c]])"
| "selector_spec_loop cur (c # d # rest) =
     (if c = backslash \<and> d = CHR ''.'' then selector_spec_loop (cur @ ''.'') rest
      else if c = CHR ''.'' \<and> d = CHR ''.'' then selector_spec_loop (cur @ ''.'') rest
      else if c = CHR ''.'' then cur # selector_spec_loop [] (d # rest)
      else selector_spec_loop (cur @ [c]) (d # rest))"

definition selector_spec :: "string \<Rightarrow> string list" where
  "selector_spec selector = selector_spec_loop [] selector"

section \<open>Failures\<close>

text \<open>
  A Go function of this repository can stop in three ways besides returning a value: it
  returns an \<open>error\<close>, it panics at run time (an index out of range, an integer division
  by zero), or it calls \<open>logger.Fatalf\<close>, which ends the process. Each is a branch of the
  model: a function returns \<open>'e abort + 'a\<close>, with \<open>Inl\<close> for the three failures.
\<close>

datatype runtime_panic = IntegerDivideByZero | IndexOutOfRange nat nat

datatype 'e abort = Err 'e | Panic runtime_panic | Fatal string

section \<open>The standard library functions used by package cfg\<close>

definition HasPrefix :: "string \<Rightarrow> string \<Rightarrow> bool" where
  "HasPrefix s prefix = (length prefix \<le> length s \<and> take (length prefix) s = prefix)"

definition HasSuffix :: "string \<Rightarrow> string \<Rightarrow> bool" where
  "HasSuffix s suffix =
     (length suffix \<le> length s \<and> drop (length s - length suffix) s = suffix)"

definition TrimPrefix :: "string \<Rightarrow> string \<Rightarrow> string" where
  "TrimPrefix s prefix = (if HasPrefix s prefix then drop (length prefix) s else s)"

definition TrimSuffix :: "string \<Rightarrow> string \<Rightarrow> string" where
  "TrimSuffix s suffix = (if HasSuffix s suffix then take (length s - length suffix) s else s)"

text \<open>
  \<open>strings.Split(s, sep)\<close> and \<open>strings.SplitN(s, sep, 2)\<close> for a separator of one byte,
  which is how the source calls them (\<open>","\<close>, \<open>"_"\<close>, \<open>"="\<close>).
\<close>

fun Split :: "string \<Rightarrow> char \<Rightarrow> string list" where
  "Split [] sep = [[]]"
| "Split (c # s) sep =
     (if c = sep then [] # Split s sep
      else (case Split s sep of p # ps \<Rightarrow> (c # p) # ps | [] \<Rightarrow> [[c]]))"


text \<open>
  \<open>strings.ReplaceAll(s, old, new)\<close> for a non-empty \<open>old\<close>: the non-overlapping
  occurrences of \<open>old\<close>, found from the left, are replaced.
\<close>

function ReplaceAll :: "string \<Rightarrow> string \<Rightarrow> string \<Rightarrow> string" where
  "ReplaceAll s old new =
     (if s = [] \<or> old = [] then s
      else if HasPrefix s old then new @ ReplaceAll (drop (length old) s) old new
      else hd s # ReplaceAll (tl s) old new)"
  by pat_completeness auto
termination
  by (relation "measure (\<lambda>(s, old, new). length s)") auto

declare ReplaceAll.simps [simp del]



text \<open>
  \<open>strings.TrimSpace\<close>: leading and trailing white space is removed. The white space
  of Go is the six ASCII bytes below and the UTF-8 encodings of U+0085, U+00A0, U+1680,
  U+2000 to U+200A, U+2028, U+2029, U+202F, U+205F and U+3000.
\<close>

definition space_runes :: "string list" where
  "space_runes =
     map (\<lambda>c. [c]) [CHR 0x09, CHR 0x0A, CHR 0x0B, CHR 0x0C, CHR 0x0D, CHR 0x20]
     @ [[CHR 0xC2, CHR 0x85], [CHR 0xC2, CHR 0xA0], [CHR 0xE1, CHR 0x9A, CHR 0x80]]
     @ map (\<lambda>c. [CHR 0xE2, CHR 0x80, c])
         [CHR 0x80, CHR 0x81, CHR 0x82, CHR 0x83, CHR 0x84, CHR 0x85, CHR 0x86, CHR 0x87,
          CHR 0x88, CHR 0x89, CHR 0x8A, CHR 0xA8, CHR 0xA9, CHR 0xAF]
     @ [[CHR 0xE2, CHR 0x81, CHR 0x9F], [CHR 0xE3, CHR 0x80, CHR 0x80]]"

lemma length_diff_less: "r \<noteq> [] \<Longrightarrow> length r \<le> length s \<Longrightarrow> length s - length r < length s"
  by (cases r) auto

function TrimLeftSpace :: "string \<Rightarrow> string" where
  "TrimLeftSpace s =
     (case find (\<lambda>r. HasPrefix s r) space_runes of
        None \<Rightarrow> s
      | Some r \<Rightarrow> if r = [] then s else TrimLeftSpace (drop (length r) s))"
  by pat_completeness auto
termination
  by (relation "measure length") (auto simp: find_Some_iff HasPrefix_def length_diff_less)

declare TrimLeftSpace.simps [simp del]

function TrimRightSpace :: "string \<Rightarrow> string" where
  "TrimRightSpace s =
     (case find (\<lambda>r. HasSuffix s r) space_runes of
        None \<Rightarrow> s
      | Some r \<Rightarrow> if r = [] then s else TrimRightSpace (take (length s - length r) s))"
  by pat_completeness auto
termination
  by (relation "measure length") (auto simp: find_Some_iff HasSuffix_def length_diff_less)

declare TrimRightSpace.simps [simp del]

definition TrimSpace :: "string \<Rightarrow> string" where
  "TrimSpace s = TrimRightSpace (TrimLeftSpace s)"

text \<open>\<open>strings.IndexAny(s, chars)\<close> for ASCII \<open>chars\<close>: the first byte of \<open>s\<close> in \<open>chars\<close>.\<close>

fun IndexAny :: "string \<Rightarrow> string \<Rightarrow> nat option" where
  "IndexAny [] chars = None"
| "IndexAny (x # xs) chars =
     (if x \<in> set chars then Some 0 else map_option Suc (IndexAny xs chars))"

text \<open>
  Go's \<open>int\<close> is a 64-bit two's complement integer: it is modelled as \<^typ>\<open>int\<close> with the
  wrap-around written out. \<open>strconv.Atoi\<close> accepts an optional sign followed by one or
  more decimal digits and fails when the value does not fit.
\<close>

definition wrap64 :: "int \<Rightarrow> int" where
  "wrap64 x = (x + 2 ^ 63) mod 2 ^ 64 - 2 ^ 63"

definition in_int64 :: "int \<Rightarrow> bool" where
  "in_int64 x = (- (2 ^ 63) \<le> x \<and> x < 2 ^ 63)"

definition is_digit :: "char \<Rightarrow> bool" where
  "is_digit c = (48 \<le> (of_char c :: nat) \<and> (of_char c :: nat) \<le> 57)"

definition digits_value :: "string \<Rightarrow> int" where
  "digits_value ds = foldl (\<lambda>acc c. acc * 10 + (int (of_char c) - 48)) 0 ds"

definition Atoi :: "string \<Rightarrow> int option" where
  "Atoi s =
     (let neg = (s \<noteq> [] \<and> hd s = CHR ''-'');
          ds = (if s \<noteq> [] \<and> (hd s = CHR ''-'' \<or> hd s = CHR ''+'') then tl s else s);
          v = (if neg then - digits_value ds else digits_value ds)
      in if ds = [] \<or> \<not> list_all is_digit ds \<or> \<not> in_int64 v then None else Some v)"

text \<open>Go's integer division truncates towards zero and wraps at the one overflow.\<close>

definition go_quot :: "int \<Rightarrow> int \<Rightarrow> int" where
  "go_quot a b = wrap64 (sgn a * sgn b * (\<bar>a\<bar> div \<bar>b\<bar>))"

section \<open>cfg.ParseField, the case \<open>parse:"expression"\<close>\<close>

datatype cfg_error =
    CantConvertToInt string
  | CantFindValue string
  | UnknownOperation char
  | ShouldBeNonZero
  | CantParseEnv string

text \<open>
  The \<open>case "expression"\<close> of \<open>ParseField\<close>, followed by the check of the \<open>required\<close> tag
  that ends the function. \<open>field\<close> is \<open>vField.String()\<close>, \<open>values\<close> is the integer
  environment, and \<open>Inr r\<close> says that \<open>r\<close> was stored in the companion field
  (\<open>finalField.SetInt\<close>) and \<open>nil\<close> returned. The division is Go's integer division, which
  panics when the divisor is zero.
\<close>

definition ParseField_expression ::
  "bool \<Rightarrow> (string \<rightharpoonup> int) \<Rightarrow> string \<Rightarrow> cfg_error abort + int" where
  "ParseField_expression required values field =
     (case IndexAny field ''*/+-'' of
        None \<Rightarrow>
          (case Atoi field of
             None \<Rightarrow> Inl (Err (CantConvertToInt field))
           | Some i \<Rightarrow> Inr i)
      | Some pos \<Rightarrow>
          (let op1 = TrimSpace (take pos field);
               op = field ! pos;
               op2 = TrimSpace (drop (pos + 1) field)
           in case (case Atoi op1 of Some v \<Rightarrow> Some v | None \<Rightarrow> values op1) of
                None \<Rightarrow> Inl (Err (CantFindValue op1))
              | Some op1' \<Rightarrow>
                 (case (case Atoi op2 of Some v \<Rightarrow> Some v | None \<Rightarrow> values op2) of
                    None \<Rightarrow> Inl (Err (CantFindValue op2))
                  | Some op2' \<Rightarrow>
                     (case (if op = CHR ''+'' then Inr (wrap64 (op1' + op2'))
                            else if op = CHR ''-'' then Inr (wrap64 (op1' - op2'))
                            else if op = CHR ''*'' then Inr (wrap64 (op1' * op2'))
                            else if op = CHR ''/'' then
                              (if op2' = 0 then Inl (Panic IntegerDivideByZero)
                               else Inr (go_quot op1' op2'))
                            else Inl (Err (UnknownOperation op))) of
                        Inl e \<Rightarrow> Inl e
                      | Inr result \<Rightarrow>
                          if required \<and> field = [] then Inl (Err ShouldBeNonZero)
                          else Inr result))))"

text \<open>The vocabulary used to state what the evaluator accepts.\<close>

definition operators :: "char set" where
  "operators = {CHR ''*'', CHR ''/'', CHR ''+'', CHR ''-''}"

definition operand_value :: "(string \<rightharpoonup> int) \<Rightarrow> string \<Rightarrow> int option" where
  "operand_value values w = (case Atoi w of Some v \<Rightarrow> Some v | None \<Rightarrow> values w)"

definition apply_operator :: "char \<Rightarrow> int \<Rightarrow> int \<Rightarrow> int" where
  "apply_operator op x y =
     (if op = CHR ''+'' then wrap64 (x + y)
      else if op = CHR ''-'' then wrap64 (x - y)
      else if op = CHR ''*'' then wrap64 (x * y)
      else go_quot x y)"

text \<open>The environment of a pipeline with capacity 1024 on eight processors.\<close>

definition env0 :: "string \<rightharpoonup> int" where
  "env0 = [''capacity'' \<mapsto> 1024, ''gomaxprocs'' \<mapsto> 8]"

section \<open>The configuration tree (go-simplejson)\<close>

text \<open>
  The configuration is held in a \<open>simplejson.Json\<close>, a wrapper of the value decoded
  from JSON. An object is a Go map; it is modelled as an association list read with
  \<^const>\<open>map_of\<close> and written with \<^const>\<open>AList.update\<close>, so a key is held once.
\<close>

datatype json =
    JNull
  | JBool bool
  | JNumber string
  | JString string
  | JArray "json list"
  | JObject "(string \<times> json) list"

text \<open>\<open>Json.Map\<close> fails on a value that is no object; \<open>Json.MustMap\<close> gives the empty map then.\<close>

fun Json_Map :: "json \<Rightarrow> (string \<times> json) list option" where
  "Json_Map (JObject m) = Some m"
| "Json_Map j = None"

definition Json_MustMap :: "json \<Rightarrow> (string \<times> json) list" where
  "Json_MustMap j = (case Json_Map j of Some m \<Rightarrow> m | None \<Rightarrow> [])"

text \<open>\<open>Json.Get\<close> gives the value at a key, and a \<open>Json\<close> holding \<open>nil\<close> when there is none.\<close>

definition Json_Get :: "json \<Rightarrow> string \<Rightarrow> json" where
  "Json_Get j key =
     (case Json_Map j of
        Some m \<Rightarrow> (case map_of m key of Some val \<Rightarrow> val | None \<Rightarrow> JNull)
      | None \<Rightarrow> JNull)"


text \<open>\<open>Json.String\<close> fails (\<open>None\<close>) on a value that is no string.\<close>

fun Json_String :: "json \<Rightarrow> string option" where
  "Json_String (JString s) = Some s"
| "Json_String j = None"


section \<open>cfg.applyEnvs\<close>



section \<open>cfg.parseConfig\<close>

record VaultConfig =
  Token :: string
  Address :: string
  ShouldUse :: bool

record PipelineConfig =
  Raw :: json

record Config =
  Vault :: VaultConfig
  Pipelines :: "(string \<times> PipelineConfig) list"

definition NewConfig :: Config where
  "NewConfig =
     \<lparr>Vault = \<lparr>Token = '''', Address = '''', ShouldUse = False\<rparr>, Pipelines = []\<rparr>"

text \<open>
  Modelled from the spec: \<open>logger.Fatalf\<close>, of the logger package that is not among the
  sources, logs the message and ends the process; the exit code of a fatal configuration
  or startup error is not zero.
\<close>

definition fatal_exit_code :: nat where
  "fatal_exit_code = 1"

text \<open>
  The loop \<open>for i := range pipelines\<close> of \<open>parseConfig\<close>: one assignment
  \<open>config.Pipelines[i] = &PipelineConfig{Raw: pipelinesJson.Get(i)}\<close> for each key.
\<close>

fun parseConfig_pipelines ::
  "json \<Rightarrow> string list \<Rightarrow> (string \<times> PipelineConfig) list \<Rightarrow> (string \<times> PipelineConfig) list"
  where
  "parseConfig_pipelines pipelinesJson [] acc = acc"
| "parseConfig_pipelines pipelinesJson (i # keys) acc =
     parseConfig_pipelines pipelinesJson keys
       (AList.update i \<lparr>Raw = Json_Get pipelinesJson i\<rparr> acc)"

text \<open>
  \<open>parseConfig\<close>. A vault address or token that is no string is logged as a warning and
  read as the empty string. Without a pipeline the function ends the process.
\<close>

definition parseConfig :: "json \<Rightarrow> cfg_error abort + Config" where
  "parseConfig json =
     (let config = NewConfig;
          vault = Json_Get json ''vault'';
          addr = (case Json_String (Json_Get vault ''address'') of Some s \<Rightarrow> s | None \<Rightarrow> '''');
          token = (case Json_String (Json_Get vault ''token'') of Some s \<Rightarrow> s | None \<Rightarrow> '''');
          config = config\<lparr>Vault := \<lparr>Token = token, Address = addr,
                     ShouldUse = (addr \<noteq> '''' \<and> token \<noteq> '''')\<rparr>\<rparr>;
          pipelinesJson = Json_Get json ''pipelines'';
          pipelines = Json_MustMap pipelinesJson
      in if length pipelines = 0 then Inl (Fatal ''no pipelines defined in config'')
         else Inr (config\<lparr>Pipelines :=
                 parseConfig_pipelines pipelinesJson (map fst pipelines) (Pipelines config)\<rparr>))"

section \<open>cfg.tryGetSecret\<close>

text \<open>
  \<open>tryGetSecret\<close>. The vault client is the function \<open>vault\<close>, giving the secret at a
  path and key or an error message. The slice \<open>pathAndKey\<close> always has a first element;
  reading its second element panics when there is none.
\<close>

definition tryGetSecret ::
  "(string \<Rightarrow> string \<Rightarrow> string + string) \<Rightarrow> json \<Rightarrow> cfg_error abort + string \<times> bool" where
  "tryGetSecret vault field =
     (case Json_String field of
        None \<Rightarrow> Inr ('''', False)
      | Some s \<Rightarrow>
          if HasPrefix s (backslash # ''vault('') then
            Inr (ReplaceAll s (backslash # ''vault('') ''vault('', True)
          else if \<not> HasPrefix s ''vault('' \<or> \<not> HasSuffix s '')'' then Inr ('''', False)
          else
            (let args = TrimPrefix s ''vault('';
                 args = TrimSuffix args '')'';
                 noSpaces = ReplaceAll args '' '' '''';
                 pathAndKey = Split noSpaces CHR '',''
             in if \<not> 1 < length pathAndKey then
                  Inl (Panic (IndexOutOfRange 1 (length pathAndKey)))
                else
                  (case vault (pathAndKey ! 0) (pathAndKey ! 1) of
                     Inl err \<Rightarrow> Inl (Fatal (''can't GetSecret: '' @ err))
                   | Inr secret \<Rightarrow> Inr (secret, True))))"

section \<open>Example inputs and vocabulary for the configuration loader\<close>



definition config2 :: json where
  "config2 =
     JObject [(''pipelines'',
       JObject [(''a'', JObject [(''input'', JString ''x'')]), (''b'', JNull)])]"

section \<open>The clickhouse output plugin\<close>

text \<open>
  The columns of the target table. \<open>chType\<close> is the enumeration of the source; a column
  (declared with the query builder, which is not among the sources) is used through
  its two fields \<open>Name\<close> and \<open>ColType\<close>.
\<close>

datatype chType = unknownType | chString | chInt | chTimestamp | chTimestring | chMilliseconds

record column =
  Name :: string
  ColType :: chType

definition nineThousandYear :: int where
  "nineThousandYear = 221842627200"

text \<open>
  The three errors of the plugin; \<open>fmt.Errorf("%w...")\<close> wraps one of them with the
  name of the field, and \<open>errors.Is\<close> finds it again.
\<close>

datatype ch_error =
    ErrEventDoesntHaveField string
  | ErrEventFieldHasWrongType string
  | ErrTimestampFromDistantPastOrFuture string

text \<open>
  A field of an event, as the strict node of insane-json answers \<open>AsString\<close> and
  \<open>AsInt\<close>: a string, an integer, or something else, on which both fail.
\<close>

datatype node = NString string | NInt int | NOther

fun AsString :: "node \<Rightarrow> string option" where
  "AsString (NString s) = Some s"
| "AsString n = None"

fun AsInt :: "node \<Rightarrow> int option" where
  "AsInt (NInt i) = Some i"
| "AsInt n = None"

type_synonym event = "(string \<times> node) list"

definition DigStrict :: "event \<Rightarrow> string \<Rightarrow> node option" where
  "DigStrict root name = map_of root name"

datatype ch_value = VString string | VInt int | VInt16 int

subsection \<open>\<open>time.Unix(t, 0).Format(time.RFC3339)\<close>\<close>

text \<open>
  The date of a day number counted from 1970-01-01 in the Gregorian calendar, and the
  layout \<open>2006-01-02T15:04:05Z07:00\<close>. \<open>time.Unix\<close> gives a time in the local zone of
  the process: \<open>zone\<close> is its offset from UTC in seconds at an instant.
\<close>

definition civil_from_days :: "int \<Rightarrow> int \<times> int \<times> int" where
  "civil_from_days days =
     (let z = days + 719468;
          era = z div 146097;
          doe = z - era * 146097;
          yoe = (doe - doe div 1460 + doe div 36524 - doe div 146096) div 365;
          y = yoe + era * 400;
          doy = doe - (365 * yoe + yoe div 4 - yoe div 100);
          mp = (5 * doy + 2) div 153;
          d = doy - (153 * mp + 2) div 5 + 1;
          m = (if mp < 10 then mp + 3 else mp - 9)
      in (if m \<le> 2 then y + 1 else y, m, d))"

definition digit_char :: "int \<Rightarrow> char" where
  "digit_char d = char_of (48 + nat d)"

definition two_digits :: "int \<Rightarrow> string" where
  "two_digits n = [digit_char (n div 10 mod 10), digit_char (n mod 10)]"

definition four_digits :: "int \<Rightarrow> string" where
  "four_digits n = two_digits (n div 100) @ two_digits n"

definition Format_RFC3339 :: "(int \<Rightarrow> int) \<Rightarrow> int \<Rightarrow> string" where
  "Format_RFC3339 zone t =
     (let offset = zone t;
          local = t + offset;
          (y, m, d) = civil_from_days (local div 86400);
          secs = local mod 86400;
          z = (if offset = 0 then ''Z''
               else (if offset < 0 then ''-'' else ''+'')
                    @ two_digits (\<bar>offset\<bar> div 3600) @ '':''
                    @ two_digits (\<bar>offset\<bar> div 60 mod 60))
      in four_digits y @ ''-'' @ two_digits m @ ''-'' @ two_digits d @ ''T''
         @ two_digits (secs div 3600) @ '':'' @ two_digits (secs div 60 mod 60) @ '':''
         @ two_digits (secs mod 60) @ z)"

definition UTC :: "int \<Rightarrow> int" where
  "UTC t = 0"

subsection \<open>\<open>addFieldToValues\<close> and \<open>processEvent\<close>\<close>

text \<open>\<open>len([]rune(s))\<close> for UTF-8 text: the bytes that do not continue a rune.\<close>

definition rune_count :: "string \<Rightarrow> nat" where
  "rune_count s = length (filter (\<lambda>c. \<not> (128 \<le> (of_char c :: nat) \<and> (of_char c :: nat) < 192)) s)"

text \<open>\<open>strconv.ParseInt(s, 10, 16)\<close>\<close>

definition ParseInt16 :: "string \<Rightarrow> int option" where
  "ParseInt16 s =
     (let neg = (s \<noteq> [] \<and> hd s = CHR ''-'');
          ds = (if s \<noteq> [] \<and> (hd s = CHR ''-'' \<or> hd s = CHR ''+'') then tl s else s);
          v = (if neg then - digits_value ds else digits_value ds)
      in if ds = [] \<or> \<not> list_all is_digit ds \<or> \<not> (- 32768 \<le> v \<and> v \<le> 32767) then None
         else Some v)"

definition addFieldToValues ::
  "(int \<Rightarrow> int) \<Rightarrow> column \<Rightarrow> node \<Rightarrow> ch_error + ch_value" where
  "addFieldToValues zone field sNode =
     (case ColType field of
        chString \<Rightarrow>
          (case AsString sNode of
             None \<Rightarrow> Inl (ErrEventFieldHasWrongType (Name field))
           | Some lVal \<Rightarrow> Inr (VString lVal))
      | chInt \<Rightarrow>
          (case AsInt sNode of
             None \<Rightarrow> Inl (ErrEventFieldHasWrongType (Name field))
           | Some lVal \<Rightarrow> Inr (VInt lVal))
      | chTimestamp \<Rightarrow>
          (case AsInt sNode of
             None \<Rightarrow> Inl (ErrEventFieldHasWrongType (Name field))
           | Some tint \<Rightarrow>
               if tint < 0 \<or> tint > nineThousandYear then
                 Inl (ErrTimestampFromDistantPastOrFuture (Name field))
               else Inr (VString (Format_RFC3339 zone tint)))
      | chTimestring \<Rightarrow>
          (case AsString sNode of
             None \<Rightarrow> Inl (ErrEventFieldHasWrongType (Name field))
           | Some lVal \<Rightarrow>
               if rune_count lVal < 19 then Inl (ErrEventFieldHasWrongType (Name field))
               else Inr (VString (take 19 lVal)))
      | chMilliseconds \<Rightarrow>
          (case AsString sNode of
             None \<Rightarrow> Inl (ErrEventFieldHasWrongType (Name field))
           | Some lVal \<Rightarrow>
               if rune_count lVal < 23 then Inl (ErrEventFieldHasWrongType (Name field))
               else (case ParseInt16 (take 3 (drop 20 lVal)) of
                       None \<Rightarrow> Inl (ErrEventFieldHasWrongType (Name field))
                     | Some nVal \<Rightarrow> Inr (VInt16 nVal)))
      | unknownType \<Rightarrow> Inl (ErrEventFieldHasWrongType (Name field)))"

fun processEvent ::
  "(int \<Rightarrow> int) \<Rightarrow> event \<Rightarrow> column list \<Rightarrow> ch_value list \<Rightarrow> ch_error + ch_value list" where
  "processEvent zone event [] fieldValues = Inr fieldValues"
| "processEvent zone event (field # chFields) fieldValues =
     (case DigStrict event (Name field) of
        None \<Rightarrow> Inl (ErrEventDoesntHaveField (Name field))
      | Some fieldNode \<Rightarrow>
          (case addFieldToValues zone field fieldNode of
             Inl err \<Rightarrow> Inl err
           | Inr lVal \<Rightarrow> processEvent zone event chFields (fieldValues @ [lVal])))"

subsection \<open>\<open>Plugin.out\<close>\<close>

text \<open>
  The fields of \<open>Config\<close> that \<open>out\<close> reads. \<open>Retention_ns\<close> is the field \<open>Retention_\<close>, a
  duration, which is a number of nanoseconds.
  \<open>default_config\<close> holds the values of the \<open>default\<close> tags: \<open>false\<close> for \<open>Strict\<close>, \<open>3\<close>
  for \<open>Retry\<close>, \<open>50ms\<close> for \<open>Retention\<close> and \<open>3000ms\<close> for \<open>DBRequestTimeout\<close>.
\<close>

record ch_config =
  Strict :: bool
  Table :: string
  Retry :: int
  Retention_ns :: int
  DBRequestTimeout_ns :: int

definition millisecond :: int where
  "millisecond = 1000000"

definition default_config :: "string \<Rightarrow> ch_config" where
  "default_config table =
     \<lparr>Strict = False, Table = table, Retry = 3, Retention_ns = 50 * millisecond,
      DBRequestTimeout_ns = 3000 * millisecond\<rparr>"

text \<open>
  The checks of \<open>Plugin.Start\<close> on the configuration, in their order; each failure
  ends the process. \<open>columns\<close> is \<open>len(p.config.Columns)\<close>.
\<close>

definition Start_checks :: "ch_config \<Rightarrow> nat \<Rightarrow> ch_error abort + unit" where
  "Start_checks config columns =
     (if columns = 0 then Inl (Fatal ''can't start plugin, no fields in config'')
      else if Retry config < 1 then Inl (Fatal ''retry can't be <1'')
      else if Retention_ns config < 1 then Inl (Fatal ''renetion can't be <1'')
      else if DBRequestTimeout_ns config < 1 then Inl (Fatal ''db_request_timeout can't be <1'')
      else Inr ())"

text \<open>
  What \<open>out\<close> does to the world, in the order it does it: the metrics, the log, the
  queries sent, the pauses and the closing of the connection pool.
\<close>

datatype effect =
    DiscardedInc
  | LogError string
  | ExecContext "ch_value list list"
  | Sleep int
  | WrittenAdd nat
  | PoolClose

text \<open>
  The loop over the events of the batch. An event that \<open>processEvent\<close> refuses is
  counted as discarded; in strict mode the plugin then ends the process, otherwise it
  logs the error and goes on to the next event, so the event adds no row.
\<close>

definition error_text :: "ch_error \<Rightarrow> string" where
  "error_text err =
     (case err of
        ErrEventDoesntHaveField n \<Rightarrow> ''event doesn't have field. required field '' @ n
      | ErrEventFieldHasWrongType n \<Rightarrow> ''event field has wrong type, '' @ n
      | ErrTimestampFromDistantPastOrFuture n \<Rightarrow>
          ''event field contains timestamp < 1970 or > 9000 year, '' @ n)"

fun out_events ::
  "(int \<Rightarrow> int) \<Rightarrow> ch_config \<Rightarrow> column list \<Rightarrow> event list \<Rightarrow>
   ch_value list list \<Rightarrow> effect list \<Rightarrow> (ch_error abort + ch_value list list) \<times> effect list"
  where
  "out_events zone config chFields [] rows trace = (Inr rows, trace)"
| "out_events zone config chFields (event # events) rows trace =
     (case processEvent zone event chFields [] of
        Inl err \<Rightarrow>
          if Strict config then (Inl (Fatal (error_text err)), trace @ [DiscardedInc])
          else out_events zone config chFields events rows
                 (trace @ [DiscardedInc, LogError (error_text err)])
      | Inr fieldValues \<Rightarrow>
          out_events zone config chFields events (rows @ [fieldValues]) trace)"

text \<open>
  The insertion with retry. \<open>db\<close> is the database: \<open>db n\<close> is the error of the \<open>n\<close>-th
  query sent to it, \<open>None\<close> when the query succeeds. \<open>calls\<close> counts the queries sent.
\<close>

record plugin_state =
  calls :: nat
  trace :: "effect list"

function out_retry ::
  "(nat \<Rightarrow> string option) \<Rightarrow> ch_config \<Rightarrow> nat \<Rightarrow> ch_value list list \<Rightarrow>
   int \<Rightarrow> string option \<Rightarrow> plugin_state \<Rightarrow> string option \<times> plugin_state" where
  "out_retry db config n query i err st =
     (if i > 0 then
        (case db (calls st) of
           Some e \<Rightarrow>
             out_retry db config n query (i - 1) (Some e)
               (st\<lparr>calls := Suc (calls st),
                   trace := trace st @ [ExecContext query, LogError e, Sleep (Retention_ns config)]\<rparr>)
         | None \<Rightarrow>
             (None, st\<lparr>calls := Suc (calls st),
                        trace := trace st @ [ExecContext query, WrittenAdd n]\<rparr>))
      else (err, st))"
  by pat_completeness auto
termination
  by (relation "measure (\<lambda>(db, config, n, query, i, err, st). nat i)") auto

declare out_retry.simps [simp del]

definition out_insert ::
  "(nat \<Rightarrow> string option) \<Rightarrow> ch_config \<Rightarrow> nat \<Rightarrow> ch_value list list \<Rightarrow>
   plugin_state \<Rightarrow> (ch_error abort + unit) \<times> plugin_state" where
  "out_insert db config n query st =
     (case out_retry db config n query (Retry config) None st of
        (Some e, st') \<Rightarrow>
          (Inl (Fatal (''failed insert into '' @ Table config)),
           st'\<lparr>trace := trace st' @ [PoolClose]\<rparr>)
      | (None, st') \<Rightarrow> (Inr (), st'))"

text \<open>
  \<open>out\<close>: the rows of the valid events, nothing more when there is none, the insertion
  otherwise. The query is built by the squirrel library from the table and the rows and
  is identified with the rows; building it fails, and the plugin ends the process, when
  the table has no name.
\<close>

definition out ::
  "(int \<Rightarrow> int) \<Rightarrow> (nat \<Rightarrow> string option) \<Rightarrow> ch_config \<Rightarrow> column list \<Rightarrow> event list \<Rightarrow>
   plugin_state \<Rightarrow> (ch_error abort + unit) \<times> plugin_state" where
  "out zone db config chFields events st =
     (case out_events zone config chFields events [] (trace st) of
        (Inl a, tr) \<Rightarrow> (Inl a, st\<lparr>trace := tr\<rparr>)
      | (Inr rows, tr) \<Rightarrow>
          if length rows = 0 then (Inr (), st\<lparr>trace := tr\<rparr>)
          else if Table config = [] then (Inl (Fatal ''Invalid SQL''), st\<lparr>trace := tr\<rparr>)
          else out_insert db config (length events) rows (st\<lparr>trace := tr\<rparr>))"

subsection \<open>Vocabulary for the traces of \<open>out\<close>\<close>

text \<open>
  \<open>k\<close> failed attempts in a row, the first one being query number \<open>from\<close> of the
  database: each sends the query, logs the error and pauses for the retention.
\<close>

fun failed_attempts ::
  "(nat \<Rightarrow> string option) \<Rightarrow> ch_config \<Rightarrow> ch_value list list \<Rightarrow> nat \<Rightarrow> nat \<Rightarrow> effect list"
  where
  "failed_attempts db config query from 0 = []"
| "failed_attempts db config query from (Suc k) =
     [ExecContext query, LogError (the (db from)), Sleep (Retention_ns config)]
     @ failed_attempts db config query (Suc from) k"

definition queries_sent :: "effect list \<Rightarrow> nat" where
  "queries_sent tr =
     length (filter (\<lambda>e. case e of ExecContext q \<Rightarrow> True | _ \<Rightarrow> False) tr)"

text \<open>The rows of the events that \<open>processEvent\<close> accepts, in the order of the batch.\<close>

definition valid_rows ::
  "(int \<Rightarrow> int) \<Rightarrow> column list \<Rightarrow> event list \<Rightarrow> ch_value list list" where
  "valid_rows zone chFields events =
     concat (map (\<lambda>event. case processEvent zone event chFields [] of
                            Inl err \<Rightarrow> [] | Inr fieldValues \<Rightarrow> [fieldValues]) events)"

text \<open>A table with a text column and a timestamp column, and two events.\<close>

definition columns0 :: "column list" where
  "columns0 = [\<lparr>Name = ''msg'', ColType = chString\<rparr>, \<lparr>Name = ''ts'', ColType = chTimestamp\<rparr>]"

definition event_ok :: event where
  "event_ok = [(''msg'', NString ''up''), (''ts'', NInt 0)]"

definition event_past :: event where
  "event_past = [(''msg'', NString ''down''), (''ts'', NInt (- 1))]"

definition st0 :: plugin_state where
  "st0 = \<lparr>calls = 0, trace = []\<rparr>"

section \<open>The daemon: \<open>main\<close>, \<open>start\<close> and \<open>listenSignals\<close>\<close>



datatype daemon_effect =
    LogInfo string
  | FileD_Stop nat int
  | NewConfigFromFile
  | FileD_New nat
  | FileD_Start nat

text \<open>
  \<open>fileD\<close> is the number of the running instance, \<open>log\<close> what the daemon has done. A
  process has either ended with an exit code or is still running. Returning from
  \<open>main\<close> is exit code 0; \<open>logger.Fatalf\<close> is \<^const>\<open>fatal_exit_code\<close>.
\<close>

record daemon =
  fileD :: nat
  log :: "daemon_effect list"

datatype process = Exited nat daemon | Running daemon


text \<open>\<open>start\<close>: a new instance is made from the configuration file and started.\<close>

definition start :: "string option \<Rightarrow> daemon \<Rightarrow> process" where
  "start config_err d =
     (case config_err of
        Some e \<Rightarrow> Exited fatal_exit_code (d\<lparr>log := log d @ [NewConfigFromFile]\<rparr>)
      | None \<Rightarrow>
          Running (d\<lparr>fileD := Suc (fileD d),
                     log := log d @ [NewConfigFromFile, FileD_New (Suc (fileD d)),
                                     FileD_Start (Suc (fileD d))]\<rparr>))"





section \<open>Regular expressions (Go's \<open>regexp\<close>) for the mask action\<close>

text \<open>
  The part of the syntax of Go's \<open>regexp\<close> that the masks of the tests are written in:
  a byte, \<open>\\d\<close>, \<open>\\D\<close>, \<open>\\b\<close>, concatenation, a numbered capture group and the greedy
  repetition \<open>{m,n}\<close> (\<open>?\<close> is \<open>{0,1}\<close>).
\<close>

datatype regex =
    Lit char
  | Digit
  | NotDigit
  | WordBoundary
  | Seq regex regex
  | Group nat regex
  | Repeat regex nat nat

text \<open>
  A state of the matcher is a position in the input and the bounds of the groups
  matched so far. \<open>matches r s st\<close> lists the states in which \<open>r\<close> can end when it starts
  in \<open>st\<close>, the preferred one first: a repetition prefers to go on (it is greedy), and
  the first state of the list is the match that Go reports (leftmost-first).
\<close>

type_synonym caps = "(nat \<times> nat) option list"

type_synonym mstate = "nat \<times> caps"

text \<open>The width of the UTF-8 rune that starts with the byte at a position.\<close>

definition rune_len :: "string \<Rightarrow> nat \<Rightarrow> nat" where
  "rune_len s i =
     (let b = (of_char (s ! i) :: nat);
          w = (if b < 192 then 1 else if b < 224 then 2 else if b < 240 then 3
               else if b < 248 then 4 else 1)
      in if i + w \<le> length s then w else 1)"

definition is_word :: "char \<Rightarrow> bool" where
  "is_word c =
     (let n = (of_char c :: nat)
      in (48 \<le> n \<and> n \<le> 57) \<or> (65 \<le> n \<and> n \<le> 90) \<or> (97 \<le> n \<and> n \<le> 122) \<or> n = 95)"

definition word_at :: "string \<Rightarrow> nat \<Rightarrow> bool" where
  "word_at s i = (i < length s \<and> is_word (s ! i))"

definition at_word_boundary :: "string \<Rightarrow> nat \<Rightarrow> bool" where
  "at_word_boundary s i = ((i > 0 \<and> word_at s (i - 1)) \<noteq> word_at s i)"

fun iterate :: "(mstate \<Rightarrow> mstate list) \<Rightarrow> nat \<Rightarrow> nat \<Rightarrow> mstate \<Rightarrow> mstate list" where
  "iterate f m 0 st = (if m = 0 then [st] else [])"
| "iterate f m (Suc n) st =
     concat (map (iterate f (m - 1) n) (f st)) @ (if m = 0 then [st] else [])"

primrec matches :: "regex \<Rightarrow> string \<Rightarrow> mstate \<Rightarrow> mstate list" where
  "matches (Lit c) s =
     (\<lambda>(i, cs). if i < length s \<and> s ! i = c then [(Suc i, cs)] else [])"
| "matches Digit s =
     (\<lambda>(i, cs). if i < length s \<and> is_digit (s ! i) then [(Suc i, cs)] else [])"
| "matches NotDigit s =
     (\<lambda>(i, cs). if i < length s \<and> \<not> is_digit (s ! i) then [(i + rune_len s i, cs)] else [])"
| "matches WordBoundary s =
     (\<lambda>(i, cs). if at_word_boundary s i then [(i, cs)] else [])"
| "matches (Seq a b) s = (\<lambda>st. concat (map (matches b s) (matches a s st)))"
| "matches (Group k r) s =
     (\<lambda>(i, cs). map (\<lambda>(j, cs'). (j, cs'[k := Some (i, j)])) (matches r s (i, cs)))"
| "matches (Repeat r m n) s = iterate (matches r s) m n"

text \<open>
  A match found: where it starts, where it ends, and its groups. \<open>match_at\<close> is the
  match that starts at a position, \<open>find_from\<close> the first match at or after one, going
  from rune to rune.
\<close>

type_synonym found = "nat \<times> nat \<times> caps"

definition match_at :: "regex \<Rightarrow> nat \<Rightarrow> string \<Rightarrow> nat \<Rightarrow> found option" where
  "match_at re groups s i =
     (case matches re s (i, replicate (Suc groups) None) of
        [] \<Rightarrow> None
      | (j, cs) # rest \<Rightarrow> Some (i, j, cs[0 := Some (i, j)]))"

lemma rune_len_pos: "0 < rune_len s i"
  by (simp add: rune_len_def Let_def)

function find_from :: "regex \<Rightarrow> nat \<Rightarrow> string \<Rightarrow> nat \<Rightarrow> found option" where
  "find_from re groups s i =
     (if i > length s then None
      else (case match_at re groups s i of
              Some m \<Rightarrow> Some m
            | None \<Rightarrow> find_from re groups s (i + (if i < length s then rune_len s i else 1))))"
  by pat_completeness auto
termination
  by (relation "measure (\<lambda>(re, groups, s, i). Suc (length s) - i)")
     (auto simp: rune_len_pos intro!: diff_less_mono2)

declare find_from.simps [simp del]

text \<open>
  \<open>Regexp.FindAllSubmatchIndex(s, -1)\<close>: the successive matches, each searched after
  the end of the one before. An empty match right after the previous match is not
  reported, and after an empty match the search moves on by one rune.
\<close>

function FindAll :: "regex \<Rightarrow> nat \<Rightarrow> string \<Rightarrow> nat \<Rightarrow> nat option \<Rightarrow> found list" where
  "FindAll re groups s pos prevMatchEnd =
     (if pos > length s then []
      else (case find_from re groups s pos of
              None \<Rightarrow> []
            | Some (b, e, cs) \<Rightarrow>
                if e \<le> pos then
                  (if Some b = prevMatchEnd then [] else [(b, e, cs)])
                  @ FindAll re groups s (pos + (if pos < length s then rune_len s pos else 1))
                      (Some e)
                else (b, e, cs) # FindAll re groups s e (Some e)))"
  by pat_completeness auto
termination
  by (relation "measure (\<lambda>(re, groups, s, pos, prev). Suc (length s) - pos)")
     (auto simp: rune_len_pos intro!: diff_less_mono2)

declare FindAll.simps [simp del]

definition FindAllSubmatchIndex :: "regex \<Rightarrow> nat \<Rightarrow> string \<Rightarrow> found list" where
  "FindAllSubmatchIndex re groups s = FindAll re groups s 0 None"

text \<open>
  The regular expression of the test, \<open>kDefaultCardRegExp\<close>:
  \<open>\\b(\\d{1,4})\\D?(\\d{1,4})\\D?(\\d{1,4})\\D?(\\d{1,4})\\b\<close>.
\<close>

definition kDefaultCardRegExp :: regex where
  "kDefaultCardRegExp =
     Seq WordBoundary
    (Seq (Group 1 (Repeat Digit 1 4))
    (Seq (Repeat NotDigit 0 1)
    (Seq (Group 2 (Repeat Digit 1 4))
    (Seq (Repeat NotDigit 0 1)
    (Seq (Group 3 (Repeat Digit 1 4))
    (Seq (Repeat NotDigit 0 1)
    (Seq (Group 4 (Repeat Digit 1 4))
         WordBoundary)))))))"

section \<open>The mask action\<close>

text \<open>
  Modelled from the spec: the mask action (\<open>plugin/action/mask/mask.go\<close>), of which only
  the tests are among the sources. A mask is a compiled regular expression and the
  numbers of the groups to hide; \<open>maskValue\<close> gives the masked text and whether anything
  was masked. In every match, the text of each listed group is replaced: by one \<open>*\<close>
  for each of its characters, by at most \<open>MaxCount\<close> of them when \<open>MaxCount\<close> is set, and
  by \<open>ReplaceWord\<close> when that is set (the cases of \<open>TestMaskFunctions\<close>). The text
  outside the groups is kept. \<open>NumSubexp\<close> is the number of groups of the expression.
\<close>

record Mask =
  Re_c :: regex
  NumSubexp :: nat
  Groups :: "nat list"
  MaxCount :: nat
  ReplaceWord :: string

definition maskSection :: "Mask \<Rightarrow> string \<Rightarrow> nat \<Rightarrow> nat \<Rightarrow> string" where
  "maskSection msk src begin end =
     (let n = rune_count (take (end - begin) (drop begin src))
      in if MaxCount msk > 0 then replicate (min n (MaxCount msk)) CHR ''*''
         else if ReplaceWord msk \<noteq> [] then ReplaceWord msk
         else replicate n CHR ''*'')"

fun maskGroups :: "Mask \<Rightarrow> string \<Rightarrow> caps \<Rightarrow> nat list \<Rightarrow> string \<times> nat \<Rightarrow> string \<times> nat" where
  "maskGroups msk value index [] (buf, offset) = (buf, offset)"
| "maskGroups msk value index (grp # grps) (buf, offset) =
     (case (if grp < length index then index ! grp else None) of
        None \<Rightarrow> maskGroups msk value index grps (buf, offset)
      | Some (b, e) \<Rightarrow>
          maskGroups msk value index grps
            (buf @ take (b - offset) (drop offset value) @ maskSection msk value b e, e))"

fun maskMatches :: "Mask \<Rightarrow> string \<Rightarrow> found list \<Rightarrow> string \<times> nat \<Rightarrow> string \<times> nat" where
  "maskMatches msk value [] acc = acc"
| "maskMatches msk value ((b, e, index) # indexes) acc =
     maskMatches msk value indexes (maskGroups msk value index (Groups msk) acc)"

definition maskValue :: "Mask \<Rightarrow> string \<Rightarrow> string \<times> bool" where
  "maskValue msk value =
     (let indexes = FindAllSubmatchIndex (Re_c msk) (NumSubexp msk) value
      in if indexes = [] then (value, False)
         else (let (buf, offset) = maskMatches msk value indexes ([], 0)
               in (buf @ drop offset value, True)))"

text \<open>
  Modelled from the spec: the action applies its masks, one after the other, to every
  string value of the event, at any depth, and passes the event on.
\<close>

datatype ActionResult = ActionPass | ActionCollapse | ActionDiscard | ActionHold | ActionBreak

definition maskString :: "Mask list \<Rightarrow> string \<Rightarrow> string" where
  "maskString masks value = fold (\<lambda>msk v. fst (maskValue msk v)) masks value"

fun maskTree :: "Mask list \<Rightarrow> json \<Rightarrow> json" where
  "maskTree masks (JString s) = JString (maskString masks s)"
| "maskTree masks (JArray xs) = JArray (map (maskTree masks) xs)"
| "maskTree masks (JObject kvs) = JObject (map (\<lambda>kv. (fst kv, maskTree masks (snd kv))) kvs)"
| "maskTree masks j = j"

definition Do :: "Mask list \<Rightarrow> json \<Rightarrow> ActionResult \<times> json" where
  "Do masks root = (ActionPass, maskTree masks root)"

definition card_mask :: Mask where
  "card_mask = \<lparr>Re_c = kDefaultCardRegExp, NumSubexp = 4, Groups = [1, 2, 3, 4],
                 MaxCount = 0, ReplaceWord = ''''\<rparr>"

chapter \<open>Properties\<close>

section \<open>Field selectors\<close>

text \<open>
  Claim C1. A selector is split into components at its unescaped dots; an escaped dot
  \<open>\\.\<close> and a doubled dot \<open>..\<close> each put one dot into the current component. The three
  selectors \<open>a\\.b\<close>, \<open>a..b\<close> and \<open>a.b\<close> parse as stated. The doubled-dot branch,
  however, assigns \<open>tail = selector[:pos+1]\<close> where the escaped-dot branch beside it
  assigns \<open>tail = tail + ...\<close>: what the component held before a doubled dot is lost.
  On \<open>a..b..c\<close> the source returns the one component \<open>b.c\<close>, where the rule of the
  claim gives \<open>a.b.c\<close>; on \<open>a\\.b..c\<close> likewise.
\<close>

theorem ParseFieldSelector_doubled_dot_drops_tail:
  "ParseFieldSelector (''a'' @ [backslash] @ ''.b'') = [''a.b''] \<and>
   ParseFieldSelector ''a..b'' = [''a.b''] \<and>
   ParseFieldSelector ''a.b'' = [''a'', ''b''] \<and>
   ParseFieldSelector ''a..b..c'' = [''b.c''] \<and>
   selector_spec ''a..b..c'' = [''a.b.c''] \<and>
   ParseFieldSelector (''a'' @ [backslash] @ ''.b..c'') = [''b.c''] \<and>
   selector_spec (''a'' @ [backslash] @ ''.b..c'') = [''a.b.c'']"
  by code_simp

section \<open>Expressions\<close>

lemma IndexAny_append:
  "set a \<inter> set chars = {} \<Longrightarrow> op \<in> set chars \<Longrightarrow>
   IndexAny (a @ op # b) chars = Some (length a)"
  by (induction a) auto

lemma IndexAny_SomeD:
  "IndexAny s chars = Some pos \<Longrightarrow>
     pos < length s \<and> s ! pos \<in> set chars \<and> set (take pos s) \<inter> set chars = {}"
  by (induction s arbitrary: pos) (auto split: if_splits)

lemma IndexAny_None: "IndexAny s chars = None \<longleftrightarrow> set s \<inter> set chars = {}"
  by (induction s) auto

lemma operators_set: "set ''*/+-'' = operators"
  by (auto simp: operators_def)

lemma IndexAny_ops_None: "IndexAny field ''*/+-'' = None \<longleftrightarrow> set field \<inter> operators = {}"
  by (simp only: IndexAny_None operators_set)

lemma IndexAny_ops_append:
  "set a \<inter> operators = {} \<Longrightarrow> op \<in> operators \<Longrightarrow>
   IndexAny (a @ op # b) ''*/+-'' = Some (length a)"
  by (rule IndexAny_append) (simp_all only: operators_set)

lemma IndexAny_ops_SomeD:
  assumes "IndexAny field ''*/+-'' = Some pos"
  shows "field = take pos field @ field ! pos # drop (Suc pos) field"
    and "set (take pos field) \<inter> operators = {}" and "field ! pos \<in> operators"
proof -
  from IndexAny_SomeD [OF assms]
  have p: "pos < length field" and "field ! pos \<in> set ''*/+-''"
    and "set (take pos field) \<inter> set ''*/+-'' = {}"
    by blast+
  then show "set (take pos field) \<inter> operators = {}" and "field ! pos \<in> operators"
    by (simp_all only: operators_set)
  from p show "field = take pos field @ field ! pos # drop (Suc pos) field"
    by (simp only: id_take_nth_drop [symmetric])
qed

text \<open>Without an operator byte the field is read by \<open>Atoi\<close> alone.\<close>

lemma ParseField_expression_literal:
  "set field \<inter> operators = {} \<Longrightarrow>
   ParseField_expression required values field =
     (case Atoi field of None \<Rightarrow> Inl (Err (CantConvertToInt field)) | Some i \<Rightarrow> Inr i)"
  by (simp add: ParseField_expression_def IndexAny_ops_None [THEN iffD2])

text \<open>With one, the field is cut at the first operator byte.\<close>

lemma ParseField_expression_binary:
  assumes "set a \<inter> operators = {}" and "op \<in> operators"
  shows "ParseField_expression required values (a @ op # b) =
     (case operand_value values (TrimSpace a) of
        None \<Rightarrow> Inl (Err (CantFindValue (TrimSpace a)))
      | Some x \<Rightarrow>
         (case operand_value values (TrimSpace b) of
            None \<Rightarrow> Inl (Err (CantFindValue (TrimSpace b)))
          | Some y \<Rightarrow>
             if op = CHR ''/'' \<and> y = 0 then Inl (Panic IntegerDivideByZero)
             else Inr (apply_operator op x y)))"
proof -
  have "IndexAny (a @ op # b) ''*/+-'' = Some (length a)"
    using assms by (rule IndexAny_ops_append)
  then show ?thesis
    using assms(2)
    by (auto simp: ParseField_expression_def operand_value_def apply_operator_def
          operators_def Let_def split: option.splits)
qed

lemma split_at_operator:
  assumes "set field \<inter> operators \<noteq> {}"
  obtains a op b where "field = a @ op # b" "set a \<inter> operators = {}" "op \<in> operators"
proof -
  from assms obtain pos where p: "IndexAny field ''*/+-'' = Some pos"
    using IndexAny_ops_None [of field] by auto
  from IndexAny_ops_SomeD [OF p] show thesis using that by blast
qed

lemma split_unique:
  assumes "a @ op # b = a' @ op' # b'"
    and "set a \<inter> operators = {}" "op \<in> operators"
    and "set a' \<inter> operators = {}" "op' \<in> operators"
  shows "a = a' \<and> op = op' \<and> b = b'"
proof -
  have "IndexAny (a @ op # b) ''*/+-'' = Some (length a)"
    using assms(2,3) by (rule IndexAny_ops_append)
  moreover have "IndexAny (a' @ op' # b') ''*/+-'' = Some (length a')"
    using assms(4,5) by (rule IndexAny_ops_append)
  ultimately have "length a = length a'" using assms(1) by simp
  then show ?thesis using assms(1) by simp
qed

lemma split_forms:
  assumes f: "field = a @ op # b" "set a \<inter> operators = {}" "op \<in> operators"
  shows "(\<exists>a' op' b'. field = a' @ op' # b' \<and> set a' \<inter> operators = {} \<and>
            op' \<in> operators \<and> P a' op' b') \<longleftrightarrow> P a op b"
proof
  assume "\<exists>a' op' b'. field = a' @ op' # b' \<and> set a' \<inter> operators = {} \<and>
            op' \<in> operators \<and> P a' op' b'"
  then obtain a' op' b' where g: "field = a' @ op' # b'" "set a' \<inter> operators = {}"
      "op' \<in> operators" "P a' op' b'"
    by blast
  from f(1) g(1) have "a @ op # b = a' @ op' # b'" by simp
  from split_unique [OF this f(2,3) g(2,3)] g(4) show "P a op b" by simp
next
  assume "P a op b"
  with f show "\<exists>a' op' b'. field = a' @ op' # b' \<and> set a' \<inter> operators = {} \<and>
            op' \<in> operators \<and> P a' op' b'"
    by blast
qed

lemma no_operator_no_split:
  "set field \<inter> operators = {} \<Longrightarrow> op \<in> operators \<Longrightarrow> field \<noteq> a @ op # b"
  by auto

lemma ParseField_expression_stored:
  "ParseField_expression required values field = Inr r \<longleftrightarrow>
      (set field \<inter> operators = {} \<and> Atoi field = Some r) \<or>
      (\<exists>a op b. field = a @ op # b \<and> set a \<inter> operators = {} \<and> op \<in> operators \<and>
         (\<exists>x y. operand_value values (TrimSpace a) = Some x \<and>
                operand_value values (TrimSpace b) = Some y \<and>
                (op = CHR ''/'' \<longrightarrow> y \<noteq> 0) \<and> r = apply_operator op x y))"
  (is "?L \<longleftrightarrow> ?A \<or> ?B")
proof (cases "set field \<inter> operators = {}")
  case True
  have "\<not> ?B" using no_operator_no_split [OF True] by blast
  moreover have "?L \<longleftrightarrow> Atoi field = Some r"
    by (simp add: ParseField_expression_literal [OF True] split: option.splits)
  ultimately show ?thesis using True by blast
next
  case False
  then obtain a op b where f: "field = a @ op # b" "set a \<inter> operators = {}" "op \<in> operators"
    by (rule split_at_operator)
  have "?B \<longleftrightarrow> (\<exists>x y. operand_value values (TrimSpace a) = Some x \<and>
                operand_value values (TrimSpace b) = Some y \<and>
                (op = CHR ''/'' \<longrightarrow> y \<noteq> 0) \<and> r = apply_operator op x y)"
    by (rule split_forms [OF f])
  moreover have "?L \<longleftrightarrow> (\<exists>x y. operand_value values (TrimSpace a) = Some x \<and>
                operand_value values (TrimSpace b) = Some y \<and>
                (op = CHR ''/'' \<longrightarrow> y \<noteq> 0) \<and> r = apply_operator op x y)"
    unfolding f(1) ParseField_expression_binary [OF f(2,3)]
    by (cases "operand_value values (TrimSpace a)"; cases "operand_value values (TrimSpace b)")
       auto
  ultimately show ?thesis using False by blast
qed

lemma ParseField_expression_rejected:
  assumes "(set field \<inter> operators = {} \<and> Atoi field = None) \<or>
    (\<exists>a op b. field = a @ op # b \<and> set a \<inter> operators = {} \<and> op \<in> operators \<and>
         (operand_value values (TrimSpace a) = None \<or>
          operand_value values (TrimSpace b) = None))"
  shows "\<exists>e. ParseField_expression required values field = Inl (Err e)"
  using assms
proof (elim disjE conjE exE)
  assume "set field \<inter> operators = {}" "Atoi field = None"
  then show ?thesis by (simp add: ParseField_expression_literal)
next
  fix a op b
  assume f: "field = a @ op # b" "set a \<inter> operators = {}" "op \<in> operators"
    and "operand_value values (TrimSpace a) = None"
  then show ?thesis
    by (simp add: ParseField_expression_binary [OF f(2,3)])
next
  fix a op b
  assume f: "field = a @ op # b" "set a \<inter> operators = {}" "op \<in> operators"
    and "operand_value values (TrimSpace b) = None"
  then show ?thesis
    by (cases "operand_value values (TrimSpace a)")
       (simp_all add: ParseField_expression_binary [OF f(2,3)])
qed

text \<open>
  Claim C2, as stated, promises that a field holding a single integer literal is
  evaluated. The source looks for the first of the bytes \<open>*/+-\<close> before it reads a
  literal, so a literal with a sign is never read as one: \<open>-5\<close>, which \<open>Atoi\<close> reads as
  an integer, is cut into an empty first operand and \<open>5\<close>, and rejected.
\<close>

theorem ParseField_expression_signed_literal:
  "Atoi ''-5'' = Some (- 5) \<and>
   ParseField_expression False env0 ''-5'' = Inl (Err (CantFindValue ''''))"
  by code_simp

text \<open>
  Claim C2, amended. A field without any of the bytes \<open>*/+-\<close> is stored when \<open>Atoi\<close>
  reads it as an integer. A field with one is cut at the first such byte into two
  operands, trimmed of white space, each an integer literal or a name of the
  environment; the result of the operation, in 64-bit arithmetic, is stored, the
  division only when the second operand is not zero. Nothing else is stored. A field
  without an operator byte that is no integer, and a field with an operand that is
  neither an integer nor a name of the environment, are rejected with an error. (What
  the division by zero does is the subject of claim C8.)
\<close>

theorem ParseField_expression_forms:
  "(ParseField_expression required values field = Inr r \<longleftrightarrow>
      (set field \<inter> operators = {} \<and> Atoi field = Some r) \<or>
      (\<exists>a op b. field = a @ op # b \<and> set a \<inter> operators = {} \<and> op \<in> operators \<and>
         (\<exists>x y. operand_value values (TrimSpace a) = Some x \<and>
                operand_value values (TrimSpace b) = Some y \<and>
                (op = CHR ''/'' \<longrightarrow> y \<noteq> 0) \<and> r = apply_operator op x y))) \<and>
   ((set field \<inter> operators = {} \<and> Atoi field = None) \<or>
    (\<exists>a op b. field = a @ op # b \<and> set a \<inter> operators = {} \<and> op \<in> operators \<and>
         (operand_value values (TrimSpace a) = None \<or>
          operand_value values (TrimSpace b) = None))
    \<longrightarrow> (\<exists>e. ParseField_expression required values field = Inl (Err e)))"
  by (intro conjI impI ParseField_expression_stored ParseField_expression_rejected)

theorem ParseField_expression_forms_witness:
  "ParseField_expression False env0 ''capacity/4'' = Inr 256 \<and>
   (\<exists>e. ParseField_expression False env0 ''capacity/x'' = Inl (Err e))"
proof -
  have a: "set ''capacity'' \<inter> operators = {}" and o: "CHR ''/'' \<in> operators"
    by (simp_all add: operators_def)
  have x: "operand_value env0 (TrimSpace ''capacity'') = Some 1024" by code_simp
  have y: "operand_value env0 (TrimSpace ''4'') = Some 4" by code_simp
  have z: "operand_value env0 (TrimSpace ''x'') = None" by code_simp
  have r: "256 = apply_operator CHR ''/'' 1024 4" by code_simp
  have s1: "''capacity/4'' = ''capacity'' @ CHR ''/'' # ''4''" by simp
  have s2: "''capacity/x'' = ''capacity'' @ CHR ''/'' # ''x''" by simp
  have n: "CHR ''/'' = CHR ''/'' \<longrightarrow> (4::int) \<noteq> 0" by simp
  have "\<exists>a op b. ''capacity/4'' = a @ op # b \<and> set a \<inter> operators = {} \<and>
         op \<in> operators \<and>
         (\<exists>x y. operand_value env0 (TrimSpace a) = Some x \<and>
                operand_value env0 (TrimSpace b) = Some y \<and>
                (op = CHR ''/'' \<longrightarrow> y \<noteq> 0) \<and> 256 = apply_operator op x y)"
    using s1 a o x y n r by (intro exI conjI)
  with ParseField_expression_forms [of False env0 "''capacity/4''" 256]
  have 1: "ParseField_expression False env0 ''capacity/4'' = Inr 256"
    by (simp only: simp_thms)
  have "\<exists>a op b. ''capacity/x'' = a @ op # b \<and> set a \<inter> operators = {} \<and>
         op \<in> operators \<and>
         (operand_value env0 (TrimSpace a) = None \<or> operand_value env0 (TrimSpace b) = None)"
    using s2 a o z by (intro exI conjI disjI2)
  with ParseField_expression_forms [of False env0 "''capacity/x''" 0]
  have 2: "\<exists>e. ParseField_expression False env0 ''capacity/x'' = Inl (Err e)"
    by (simp only: simp_thms)
  from 1 2 show ?thesis by (rule conjI)
qed

text \<open>
  Claim C8. A division whose second operand is zero is not rejected with an error: the
  source divides without a check, and Go's integer division by zero panics. With
  \<open>capacity\<close> in the environment, \<open>capacity/0\<close> is such a field.
\<close>

theorem ParseField_expression_division_by_zero:
  assumes "set a \<inter> operators = {}"
    and "operand_value values (TrimSpace a) = Some x"
    and "operand_value values (TrimSpace b) = Some 0"
  shows "ParseField_expression required values (a @ ''/'' @ b) =
           Inl (Panic IntegerDivideByZero)"
proof -
  have "CHR ''/'' \<in> operators" by (simp add: operators_def)
  from ParseField_expression_binary [OF assms(1) this, of required "values" b]
  show ?thesis using assms(2,3) by simp
qed

theorem ParseField_expression_division_by_zero_witness:
  "ParseField_expression False env0 ''capacity/0'' = Inl (Panic IntegerDivideByZero)"
proof -
  have a: "set ''capacity'' \<inter> operators = {}" by (simp add: operators_def)
  have x: "operand_value env0 (TrimSpace ''capacity'') = Some 1024" by code_simp
  have y: "operand_value env0 (TrimSpace ''0'') = Some 0" by code_simp
  from ParseField_expression_division_by_zero [OF a x y, of False]
  show ?thesis by simp
qed

section \<open>Secrets\<close>

lemma set_ReplaceAll: "set (ReplaceAll s old new) \<subseteq> set s \<union> set new"
proof (induction s old new rule: ReplaceAll.induct)
  case (1 s old new)
  show ?case
  proof (cases "s = [] \<or> old = []")
    case True
    then show ?thesis by (subst ReplaceAll.simps) auto
  next
    case False
    show ?thesis
    proof (cases "HasPrefix s old")
      case True
      with False 1(1)
      have "set (ReplaceAll (drop (length old) s) old new) \<subseteq> set (drop (length old) s) \<union> set new"
        by simp
      moreover have "set (drop (length old) s) \<subseteq> set s" by (rule set_drop_subset)
      ultimately show ?thesis using False True by (subst ReplaceAll.simps) auto
    next
      case F2: False
      with False 1(2) have "set (ReplaceAll (tl s) old new) \<subseteq> set (tl s) \<union> set new"
        by simp
      moreover have "set (tl s) \<subseteq> set s" using False by (cases s) auto
      moreover have "hd s \<in> set s" using False by simp
      ultimately show ?thesis using False F2 by (subst ReplaceAll.simps) auto
    qed
  qed
qed

lemma Split_no_sep: "sep \<notin> set s \<Longrightarrow> Split s sep = [s]"
  by (induction s) auto

lemma HasPrefix_append: "HasPrefix (p @ s) p"
  by (simp add: HasPrefix_def)

lemma HasSuffix_append: "HasSuffix (s @ p) p"
  by (simp add: HasSuffix_def)

lemma TrimPrefix_append: "TrimPrefix (p @ s) p = s"
  by (simp add: TrimPrefix_def HasPrefix_def)

lemma TrimSuffix_append: "TrimSuffix (s @ p) p = s"
  by (simp add: TrimSuffix_def HasSuffix_def)

text \<open>
  Claim C9. A configuration string \<open>vault(x)\<close> whose text between the parentheses has no
  comma makes \<open>tryGetSecret\<close> read the second element of a slice of one element: the
  function panics, it neither returns nor reports a configuration error.
\<close>

theorem tryGetSecret_no_comma_panics:
  assumes "CHR '','' \<notin> set x"
  shows "tryGetSecret vault (JString (''vault('' @ x @ '')'')) =
           Inl (Panic (IndexOutOfRange 1 1))"
proof -
  let ?s = "''vault('' @ x @ '')''"
  have 1: "\<not> HasPrefix ?s (backslash # ''vault('')"
    by (simp add: HasPrefix_def backslash_def)
  have 2: "HasPrefix ?s ''vault(''" by (rule HasPrefix_append)
  have 3: "HasSuffix ?s '')''" using HasSuffix_append [of "''vault('' @ x" "'')''"] by simp
  have 4: "TrimPrefix ?s ''vault('' = x @ '')''" by (rule TrimPrefix_append)
  have 5: "TrimSuffix (x @ '')'') '')'' = x" by (rule TrimSuffix_append)
  have "CHR '','' \<notin> set (ReplaceAll x '' '' '''')"
    using set_ReplaceAll [of x "'' ''" "''''"] assms by auto
  then have 6: "Split (ReplaceAll x '' '' '''') CHR '','' = [ReplaceAll x '' '' '''']"
    by (rule Split_no_sep)
  show ?thesis
    unfolding tryGetSecret_def Json_String.simps option.case Let_def 4 5 6
    using 1 2 3 by simp
qed

theorem tryGetSecret_no_comma_panics_witness:
  "tryGetSecret (\<lambda>path key. Inr ''secret'') (JString ''vault(x)'') =
     Inl (Panic (IndexOutOfRange 1 1))"
  using tryGetSecret_no_comma_panics [of "''x''" "\<lambda>path key. Inr ''secret''"] by simp

section \<open>Environment variables\<close>

















section \<open>Pipelines of the configuration\<close>

lemma parseConfig_pipelines_map_of:
  "map_of (parseConfig_pipelines pj keys acc) k =
     (if k \<in> set keys then Some \<lparr>Raw = Json_Get pj k\<rparr> else map_of acc k)"
  by (induction keys arbitrary: acc) (auto simp: update_conv')

lemma parseConfig_pipelines_distinct:
  "distinct (map fst acc) \<Longrightarrow> distinct (map fst (parseConfig_pipelines pj keys acc))"
  by (induction keys arbitrary: acc) (auto simp: distinct_update)

lemma parseConfig_pipelines_keys:
  "set (map fst (parseConfig_pipelines pj keys acc)) = set keys \<union> set (map fst acc)"
  by (induction keys arbitrary: acc) (auto simp: dom_update)

text \<open>
  Claim C7. When the configuration defines no pipeline (the key \<open>pipelines\<close> is missing,
  is not an object, or is an empty object), \<open>parseConfig\<close> ends the process through
  \<open>logger.Fatalf\<close>, with an exit code that is not zero, and no \<open>Config\<close> is returned. When it
  defines one or more, \<open>parseConfig\<close> returns a \<open>Config\<close> whose \<open>Pipelines\<close> hold each key of
  the object exactly once, with the value found at that key as \<open>Raw\<close>.
\<close>

theorem parseConfig_pipelines:
  "(Json_MustMap (Json_Get json ''pipelines'') = [] \<longrightarrow>
      parseConfig json = Inl (Fatal ''no pipelines defined in config'') \<and>
      fatal_exit_code \<noteq> 0) \<and>
   (Json_MustMap (Json_Get json ''pipelines'') \<noteq> [] \<longrightarrow>
      (\<exists>config. parseConfig json = Inr config \<and>
         distinct (map fst (Pipelines config)) \<and>
         set (map fst (Pipelines config)) =
           set (map fst (Json_MustMap (Json_Get json ''pipelines''))) \<and>
         (\<forall>k \<in> set (map fst (Json_MustMap (Json_Get json ''pipelines''))).
            map_of (Pipelines config) k =
              Some \<lparr>Raw = Json_Get (Json_Get json ''pipelines'') k\<rparr>)))"
proof (intro conjI impI)
  assume "Json_MustMap (Json_Get json ''pipelines'') = []"
  then show "parseConfig json = Inl (Fatal ''no pipelines defined in config'')"
    by (simp add: parseConfig_def Let_def)
  show "fatal_exit_code \<noteq> 0" by (simp add: fatal_exit_code_def)
next
  let ?pj = "Json_Get json ''pipelines''"
  assume ne: "Json_MustMap ?pj \<noteq> []"
  define ps where "ps = parseConfig_pipelines ?pj (map fst (Json_MustMap ?pj)) []"
  have d: "distinct (map fst ps)"
    unfolding ps_def by (rule parseConfig_pipelines_distinct) simp
  have k: "set (map fst ps) = set (map fst (Json_MustMap ?pj))"
    unfolding ps_def parseConfig_pipelines_keys by simp
  have m: "\<forall>k \<in> set (map fst (Json_MustMap ?pj)).
             map_of ps k = Some \<lparr>Raw = Json_Get ?pj k\<rparr>"
    unfolding ps_def parseConfig_pipelines_map_of by simp
  have "\<exists>config. parseConfig json = Inr config \<and> Pipelines config = ps"
    using ne by (simp add: parseConfig_def Let_def NewConfig_def ps_def)
  with d k m show "\<exists>config. parseConfig json = Inr config \<and>
         distinct (map fst (Pipelines config)) \<and>
         set (map fst (Pipelines config)) = set (map fst (Json_MustMap ?pj)) \<and>
         (\<forall>k \<in> set (map fst (Json_MustMap ?pj)).
            map_of (Pipelines config) k = Some \<lparr>Raw = Json_Get ?pj k\<rparr>)"
    by auto
qed

theorem parseConfig_pipelines_witness:
  "parseConfig (JObject [(''vault'', JNull)]) =
     Inl (Fatal ''no pipelines defined in config'') \<and>
   (\<exists>config. parseConfig config2 = Inr config \<and>
      set (map fst (Pipelines config)) = {''a'', ''b''} \<and>
      map_of (Pipelines config) ''a'' = Some \<lparr>Raw = JObject [(''input'', JString ''x'')]\<rparr>)"
proof -
  have 1: "Json_MustMap (Json_Get (JObject [(''vault'', JNull)]) ''pipelines'') = []"
    by code_simp
  have 2: "Json_MustMap (Json_Get config2 ''pipelines'') =
             [(''a'', JObject [(''input'', JString ''x'')]), (''b'', JNull)]"
    by code_simp
  have 3: "Json_Get (Json_Get config2 ''pipelines'') ''a'' = JObject [(''input'', JString ''x'')]"
    by code_simp
  from parseConfig_pipelines [of "JObject [(''vault'', JNull)]"] 1
  have a: "parseConfig (JObject [(''vault'', JNull)]) =
             Inl (Fatal ''no pipelines defined in config'')"
    by simp
  from parseConfig_pipelines [of config2]
  have b: "\<exists>config. parseConfig config2 = Inr config \<and>
      set (map fst (Pipelines config)) = {''a'', ''b''} \<and>
      map_of (Pipelines config) ''a'' = Some \<lparr>Raw = JObject [(''input'', JString ''x'')]\<rparr>"
    unfolding 2 3 by (auto simp: 3)
  from a b show ?thesis by (rule conjI)
qed

section \<open>The clickhouse output\<close>

lemma out_retry_step_fail:
  "0 < i \<Longrightarrow> db (calls st) = Some e \<Longrightarrow>
   out_retry db config n query i err st =
     out_retry db config n query (i - 1) (Some e)
       (st\<lparr>calls := Suc (calls st),
           trace := trace st @ [ExecContext query, LogError e, Sleep (Retention_ns config)]\<rparr>)"
  by (subst out_retry.simps) simp

lemma out_retry_step_ok:
  "0 < i \<Longrightarrow> db (calls st) = None \<Longrightarrow>
   out_retry db config n query i err st =
     (None, st\<lparr>calls := Suc (calls st), trace := trace st @ [ExecContext query, WrittenAdd n]\<rparr>)"
  by (subst out_retry.simps) simp

lemma out_retry_done: "i \<le> 0 \<Longrightarrow> out_retry db config n query i err st = (err, st)"
  by (subst out_retry.simps) simp

lemma out_retry_all_fail:
  "\<forall>j < k. db (calls st + j) \<noteq> None \<Longrightarrow>
   out_retry db config n query (int k) err st =
     (if k = 0 then err else db (calls st + k - 1),
      st\<lparr>calls := calls st + k,
         trace := trace st @ failed_attempts db config query (calls st) k\<rparr>)"
proof (induction k arbitrary: st err)
  case 0
  then show ?case by (simp add: out_retry_done)
next
  case (Suc k)
  from Suc.prems have "db (calls st + 0) \<noteq> None" by blast
  then obtain e where e: "db (calls st) = Some e" by auto
  let ?st = "st\<lparr>calls := Suc (calls st),
                   trace := trace st @ [ExecContext query, LogError e, Sleep (Retention_ns config)]\<rparr>"
  have step: "out_retry db config n query (int (Suc k)) err st =
      out_retry db config n query (int k) (Some e) ?st"
    using out_retry_step_fail [of "int (Suc k)" db st e config n query err] e by simp
  have "\<forall>j<k. db (calls ?st + j) \<noteq> None"
    using Suc.prems by auto
  from Suc.IH [OF this, of "Some e"]
  show ?case
    unfolding step by (simp add: e)
qed

lemma out_retry_success:
  "\<forall>j < k. db (calls st + j) \<noteq> None \<Longrightarrow> db (calls st + k) = None \<Longrightarrow> int k < i \<Longrightarrow>
   out_retry db config n query i err st =
     (None,
      st\<lparr>calls := calls st + k + 1,
         trace := trace st @ failed_attempts db config query (calls st) k
                  @ [ExecContext query, WrittenAdd n]\<rparr>)"
proof (induction k arbitrary: st err i)
  case 0
  then show ?case by (simp add: out_retry_step_ok)
next
  case (Suc k)
  from Suc.prems have "db (calls st + 0) \<noteq> None" by blast
  then obtain e where e: "db (calls st) = Some e" by auto
  let ?st = "st\<lparr>calls := Suc (calls st),
                   trace := trace st @ [ExecContext query, LogError e, Sleep (Retention_ns config)]\<rparr>"
  have step: "out_retry db config n query i err st =
      out_retry db config n query (i - 1) (Some e) ?st"
    using out_retry_step_fail [of i db st e config n query err] e Suc.prems(3) by simp
  have 1: "\<forall>j<k. db (calls ?st + j) \<noteq> None" using Suc.prems(1) by auto
  have 2: "db (calls ?st + k) = None" using Suc.prems(2) by simp
  have 3: "int k < i - 1" using Suc.prems(3) by simp
  from Suc.IH [OF 1 2 3, of "Some e"]
  show ?case
    unfolding step by (simp add: e)
qed

lemma queries_sent_failed_attempts:
  "queries_sent (failed_attempts db config query from k) = k"
  by (induction k arbitrary: "from") (simp_all add: queries_sent_def)

lemma queries_sent_append: "queries_sent (a @ b) = queries_sent a + queries_sent b"
  by (simp add: queries_sent_def)

lemma valid_rows_Cons:
  "valid_rows zone chFields (event # events) =
     (case processEvent zone event chFields [] of Inl err \<Rightarrow> [] | Inr fieldValues \<Rightarrow> [fieldValues])
     @ valid_rows zone chFields events"
  by (simp add: valid_rows_def)

lemma out_events_nonstrict:
  "\<not> Strict config \<Longrightarrow>
   fst (out_events zone config chFields events rows tr) =
     Inr (rows @ valid_rows zone chFields events)"
proof (induction events arbitrary: rows tr)
  case Nil
  then show ?case by (simp add: valid_rows_def)
next
  case (Cons event events)
  then show ?case
    by (cases "processEvent zone event chFields []") (simp_all add: valid_rows_Cons)
qed

lemma processEvent_append:
  "processEvent zone event pre vs = Inr vs' \<Longrightarrow>
   processEvent zone event (pre @ cs) vs = processEvent zone event cs vs'"
  by (induction pre arbitrary: vs) (auto split: option.splits sum.splits)

lemma addFieldToValues_timestamp_cases:
  assumes "ColType field = chTimestamp" and "AsInt sNode = Some tint"
  shows "addFieldToValues zone field sNode =
     (if tint < 0 \<or> tint > 221842627200
      then Inl (ErrTimestampFromDistantPastOrFuture (Name field))
      else Inr (VString (Format_RFC3339 zone tint)))"
  using assms by (simp add: addFieldToValues_def nineThousandYear_def)

text \<open>
  Claim C10. For a column of type timestamp and an event field holding an integer,
  \<open>addFieldToValues\<close> returns the error \<open>ErrTimestampFromDistantPastOrFuture\<close> exactly
  when the integer is below 0 or above 221842627200, and otherwise the RFC 3339 text
  of that number of seconds since 1970. An event refused for this reason adds no row
  to the insertion: in strict mode \<open>out\<close> ends the process, otherwise it counts the
  event as discarded, logs the error and goes on, and the rows inserted are those of
  the events that were accepted.
\<close>

theorem timestamp_range:
  assumes "ColType field = chTimestamp" and "AsInt sNode = Some tint"
  shows "(addFieldToValues zone field sNode =
            Inl (ErrTimestampFromDistantPastOrFuture (Name field))
          \<longleftrightarrow> tint < 0 \<or> tint > 221842627200) \<and>
         (\<not> (tint < 0 \<or> tint > 221842627200) \<longrightarrow>
            addFieldToValues zone field sNode = Inr (VString (Format_RFC3339 zone tint))) \<and>
         (processEvent zone event pre [] = Inr vs \<and> DigStrict event (Name field) = Some sNode \<and>
          (tint < 0 \<or> tint > 221842627200) \<longrightarrow>
            processEvent zone event (pre @ field # rest) [] =
              Inl (ErrTimestampFromDistantPastOrFuture (Name field)) \<and>
            valid_rows zone (pre @ field # rest) [event] = [] \<and>
            out_events zone config (pre @ field # rest) (event # events) rows tr =
              (if Strict config
               then (Inl (Fatal (error_text (ErrTimestampFromDistantPastOrFuture (Name field)))),
                     tr @ [DiscardedInc])
               else out_events zone config (pre @ field # rest) events rows
                      (tr @ [DiscardedInc,
                             LogError (error_text (ErrTimestampFromDistantPastOrFuture (Name field)))]))) \<and>
         (\<not> Strict config \<longrightarrow>
            fst (out_events zone config chFields events rows tr) =
              Inr (rows @ valid_rows zone chFields events))"
proof (intro conjI impI)
  note c = addFieldToValues_timestamp_cases [OF assms, of zone]
  show "addFieldToValues zone field sNode =
            Inl (ErrTimestampFromDistantPastOrFuture (Name field))
          \<longleftrightarrow> tint < 0 \<or> tint > 221842627200"
    unfolding c by simp
  show "addFieldToValues zone field sNode = Inr (VString (Format_RFC3339 zone tint))"
    if "\<not> (tint < 0 \<or> tint > 221842627200)"
    unfolding c using that by simp
  show "fst (out_events zone config chFields events rows tr) =
              Inr (rows @ valid_rows zone chFields events)" if "\<not> Strict config"
    using that by (rule out_events_nonstrict)
next
  note c = addFieldToValues_timestamp_cases [OF assms, of zone]
  assume a: "processEvent zone event pre [] = Inr vs \<and> DigStrict event (Name field) = Some sNode \<and>
          (tint < 0 \<or> tint > 221842627200)"
  then have p: "processEvent zone event (pre @ field # rest) [] =
              Inl (ErrTimestampFromDistantPastOrFuture (Name field))"
    using processEvent_append [of zone event pre "[]" vs "field # rest"] c by auto
  show "processEvent zone event (pre @ field # rest) [] =
              Inl (ErrTimestampFromDistantPastOrFuture (Name field))"
    by (rule p)
  show "valid_rows zone (pre @ field # rest) [event] = []"
    by (simp add: valid_rows_def p)
  show "out_events zone config (pre @ field # rest) (event # events) rows tr =
              (if Strict config
               then (Inl (Fatal (error_text (ErrTimestampFromDistantPastOrFuture (Name field)))),
                     tr @ [DiscardedInc])
               else out_events zone config (pre @ field # rest) events rows
                      (tr @ [DiscardedInc,
                             LogError (error_text (ErrTimestampFromDistantPastOrFuture (Name field)))]))"
    by (simp add: p)
qed

lemma first_success:
  fixes db :: "nat \<Rightarrow> 'a option" and c r :: nat
  assumes "\<not> (\<forall>j < r. db (c + j) \<noteq> None)"
  obtains k where "k < r" "\<forall>j < k. db (c + j) \<noteq> None" "db (c + k) = None"
proof -
  define k where "k = (LEAST j. db (c + j) = None)"
  from assms obtain j where j: "j < r" "db (c + j) = None" by auto
  from j(2) have 1: "db (c + k) = None"
    unfolding k_def by (rule LeastI [of "\<lambda>j. db (c + j) = None"])
  from j(2) have 2: "k \<le> j"
    unfolding k_def by (rule Least_le [of "\<lambda>j. db (c + j) = None"])
  have 3: "\<forall>i < k. db (c + i) \<noteq> None"
    unfolding k_def using not_less_Least by blast
  from 1 2 3 j(1) show thesis using that [of k] by simp
qed

text \<open>
  Claim C4. Once \<open>Start\<close> has accepted the configuration, the insertion of a batch sends
  the query at most \<open>Retry\<close> times. When the first \<open>Retry\<close> queries all fail, each
  failure is logged and followed by a pause of \<open>Retention\<close>, then the connection pool is
  closed and the process ended by \<open>logger.Fatalf\<close>. When the query succeeds at an attempt,
  those before it having failed, the events are counted as written and no further
  query is sent. The \<open>default\<close> tags give 3 attempts and a pause of 50 milliseconds.
\<close>

theorem out_insert_retries:
  assumes "Start_checks config columns = Inr ()"
  shows "((\<forall>j < nat (Retry config). db (calls st + j) \<noteq> None) \<longrightarrow>
            out_insert db config n query st =
              (Inl (Fatal (''failed insert into '' @ Table config)),
               st\<lparr>calls := calls st + nat (Retry config),
                  trace := trace st
                    @ failed_attempts db config query (calls st) (nat (Retry config))
                    @ [PoolClose]\<rparr>)) \<and>
         (\<forall>k. int k < Retry config \<and> (\<forall>j < k. db (calls st + j) \<noteq> None) \<and>
              db (calls st + k) = None \<longrightarrow>
            out_insert db config n query st =
              (Inr (),
               st\<lparr>calls := calls st + k + 1,
                  trace := trace st @ failed_attempts db config query (calls st) k
                    @ [ExecContext query, WrittenAdd n]\<rparr>)) \<and>
         calls (snd (out_insert db config n query st)) \<le> calls st + nat (Retry config) \<and>
         queries_sent (failed_attempts db config query (calls st) k) = k \<and>
         Retry (default_config table) = 3 \<and>
         Retention_ns (default_config table) = 50 * millisecond"
proof -
  from assms have r: "0 < Retry config"
    by (simp add: Start_checks_def split: if_splits)
  define rn where "rn = nat (Retry config)"
  with r have rn: "Retry config = int rn" "0 < rn" by simp_all
  have A: "out_insert db config n query st =
              (Inl (Fatal (''failed insert into '' @ Table config)),
               st\<lparr>calls := calls st + rn,
                  trace := trace st @ failed_attempts db config query (calls st) rn
                    @ [PoolClose]\<rparr>)"
    if f: "\<forall>j < rn. db (calls st + j) \<noteq> None"
  proof -
    from rn(2) have "rn - 1 < rn" by simp
    with f have "db (calls st + (rn - 1)) \<noteq> None" by blast
    moreover from rn(2) have "calls st + (rn - 1) = calls st + rn - 1" by simp
    ultimately obtain e where e: "db (calls st + rn - 1) = Some e" by auto
    show ?thesis
      unfolding out_insert_def rn(1) out_retry_all_fail [OF f]
      using rn(2) e by simp
  qed
  have B: "out_insert db config n query st =
              (Inr (),
               st\<lparr>calls := calls st + k + 1,
                  trace := trace st @ failed_attempts db config query (calls st) k
                    @ [ExecContext query, WrittenAdd n]\<rparr>)"
    if "int k < Retry config" "\<forall>j < k. db (calls st + j) \<noteq> None" "db (calls st + k) = None"
    for k
    unfolding out_insert_def out_retry_success [OF that(2,3,1)] by simp
  have C: "calls (snd (out_insert db config n query st)) \<le> calls st + rn"
  proof (cases "\<forall>j < rn. db (calls st + j) \<noteq> None")
    case True
    then show ?thesis by (simp add: A)
  next
    case False
    then obtain k where k: "k < rn" "\<forall>j < k. db (calls st + j) \<noteq> None" "db (calls st + k) = None"
      by (rule first_success)
    from k(1) have "int k < Retry config" by (simp add: rn(1))
    from B [OF this k(2,3)] k(1) show ?thesis by simp
  qed
  show ?thesis
    using A B C unfolding rn_def
    by (simp add: queries_sent_failed_attempts default_config_def)
qed

theorem out_insert_retries_witness:
  "out_insert (\<lambda>n. Some ''timeout'') (default_config ''logs'') 1 [[VInt 7]] st0 =
     (Inl (Fatal ''failed insert into logs''),
      \<lparr>calls = 3,
       trace = [ExecContext [[VInt 7]], LogError ''timeout'', Sleep 50000000,
                ExecContext [[VInt 7]], LogError ''timeout'', Sleep 50000000,
                ExecContext [[VInt 7]], LogError ''timeout'', Sleep 50000000,
                PoolClose]\<rparr>) \<and>
   out_insert (\<lambda>n. if n = 0 then Some ''timeout'' else None) (default_config ''logs'') 1
       [[VInt 7]] st0 =
     (Inr (),
      \<lparr>calls = 2,
       trace = [ExecContext [[VInt 7]], LogError ''timeout'', Sleep 50000000,
                ExecContext [[VInt 7]], WrittenAdd 1]\<rparr>)"
proof -
  have s: "Start_checks (default_config ''logs'') 2 = Inr ()"
    by (simp add: Start_checks_def default_config_def millisecond_def)
  have r: "nat (Retry (default_config ''logs'')) = Suc (Suc (Suc 0))"
    by (simp add: default_config_def)
  have 1: "out_insert (\<lambda>n. Some ''timeout'') (default_config ''logs'') 1 [[VInt 7]] st0 =
     (Inl (Fatal ''failed insert into logs''),
      \<lparr>calls = 3,
       trace = [ExecContext [[VInt 7]], LogError ''timeout'', Sleep 50000000,
                ExecContext [[VInt 7]], LogError ''timeout'', Sleep 50000000,
                ExecContext [[VInt 7]], LogError ''timeout'', Sleep 50000000,
                PoolClose]\<rparr>)"
    using out_insert_retries [OF s, of "\<lambda>n. Some ''timeout''" st0 1 "[[VInt 7]]" 0 "''logs''"]
    unfolding r by (simp add: st0_def default_config_def millisecond_def)
  have 2: "out_insert (\<lambda>n. if n = 0 then Some ''timeout'' else None) (default_config ''logs'') 1
       [[VInt 7]] st0 =
     (Inr (),
      \<lparr>calls = 2,
       trace = [ExecContext [[VInt 7]], LogError ''timeout'', Sleep 50000000,
                ExecContext [[VInt 7]], WrittenAdd 1]\<rparr>)"
    using out_insert_retries [OF s, of "\<lambda>n. if n = 0 then Some ''timeout'' else None" st0 1
        "[[VInt 7]]" 0 "''logs''", THEN conjunct2, THEN conjunct1, THEN spec, of "Suc 0"]
    by (simp add: st0_def default_config_def millisecond_def)
  from 1 2 show ?thesis by (rule conjI)
qed

text \<open>
  The bound \<open>nineThousandYear\<close> is the last day of November 8999 in UTC, a month before
  the year 9000 of its name.
\<close>

lemma nineThousandYear_date: "Format_RFC3339 UTC nineThousandYear = ''8999-11-30T00:00:00Z''"
  by code_simp

theorem timestamp_range_witness:
  "addFieldToValues UTC \<lparr>Name = ''ts'', ColType = chTimestamp\<rparr> (NInt (- 1)) =
     Inl (ErrTimestampFromDistantPastOrFuture ''ts'') \<and>
   addFieldToValues UTC \<lparr>Name = ''ts'', ColType = chTimestamp\<rparr> (NInt 0) =
     Inr (VString ''1970-01-01T00:00:00Z'') \<and>
   out_events UTC (default_config ''logs'') columns0 [event_past, event_ok] [] [] =
     (Inr [[VString ''up'', VString ''1970-01-01T00:00:00Z'']],
      [DiscardedInc,
       LogError ''event field contains timestamp < 1970 or > 9000 year, ts'']) \<and>
   out_events UTC ((default_config ''logs'')\<lparr>Strict := True\<rparr>) columns0
       [event_past, event_ok] [] [] =
     (Inl (Fatal ''event field contains timestamp < 1970 or > 9000 year, ts''), [DiscardedInc])"
proof -
  let ?ts = "\<lparr>Name = ''ts'', ColType = chTimestamp\<rparr>"
  let ?msg = "\<lparr>Name = ''msg'', ColType = chString\<rparr>"
  have c: "ColType ?ts = chTimestamp" by simp
  have i1: "AsInt (NInt (- 1)) = Some (- 1)" and i0: "AsInt (NInt 0) = Some 0" by simp_all
  have f0: "Format_RFC3339 UTC 0 = ''1970-01-01T00:00:00Z''" by code_simp
  have pre: "processEvent UTC event_past [?msg] [] = Inr [VString ''down'']"
    by code_simp
  have dig: "DigStrict event_past (Name ?ts) = Some (NInt (- 1))"
    by code_simp
  have cols: "columns0 = [?msg] @ ?ts # []" by (simp add: columns0_def)
  have ok: "out_events UTC (default_config ''logs'') columns0 [event_ok] []
              [DiscardedInc, LogError (error_text (ErrTimestampFromDistantPastOrFuture ''ts''))] =
            (Inr [[VString ''up'', VString ''1970-01-01T00:00:00Z'']],
             [DiscardedInc, LogError ''event field contains timestamp < 1970 or > 9000 year, ts''])"
    by code_simp
  have et: "error_text (ErrTimestampFromDistantPastOrFuture ''ts'') =
              ''event field contains timestamp < 1970 or > 9000 year, ts''"
    by code_simp
  note t1 = timestamp_range [OF c i1, of UTC event_past "[?msg]" "[VString ''down'']" "[]"
      _ "[event_ok]" "[]" "[]"]
  have 1: "addFieldToValues UTC ?ts (NInt (- 1)) = Inl (ErrTimestampFromDistantPastOrFuture ''ts'')"
    using t1 [of "default_config ''logs''"] by simp
  have 2: "addFieldToValues UTC ?ts (NInt 0) = Inr (VString ''1970-01-01T00:00:00Z'')"
    using timestamp_range [OF c i0, of UTC] f0 by simp
  have 3: "out_events UTC (default_config ''logs'') columns0 [event_past, event_ok] [] [] =
     (Inr [[VString ''up'', VString ''1970-01-01T00:00:00Z'']],
      [DiscardedInc, LogError ''event field contains timestamp < 1970 or > 9000 year, ts''])"
    using t1 [of "default_config ''logs''"] pre dig ok
    unfolding cols [symmetric] by (simp add: default_config_def)
  have 4: "out_events UTC ((default_config ''logs'')\<lparr>Strict := True\<rparr>) columns0
       [event_past, event_ok] [] [] =
     (Inl (Fatal ''event field contains timestamp < 1970 or > 9000 year, ts''), [DiscardedInc])"
    using t1 [of "(default_config ''logs'')\<lparr>Strict := True\<rparr>"] pre dig et
    unfolding cols [symmetric] by (simp add: default_config_def)
  from 1 2 3 4 show ?thesis by blast
qed

section \<open>Signals\<close>




section \<open>Masking a card number\<close>

text \<open>
  Claim C3. In \<open>5408-7430-0756-2004\<close> the card expression matches once, from the first to
  the last byte, with the four groups on the four runs of digits. Masking the groups 1
  to 4 replaces each of their digits by \<open>*\<close> and reports that the value was masked; the
  event whose \<open>field1\<close> holds the number leaves the action, which passes it on, with the
  masked text in \<open>field1\<close>.
\<close>

theorem mask_card_number:
  "FindAllSubmatchIndex kDefaultCardRegExp 4 ''5408-7430-0756-2004'' =
     [(0, 19, [Some (0, 19), Some (0, 4), Some (5, 9), Some (10, 14), Some (15, 19)])] \<and>
   maskValue card_mask ''5408-7430-0756-2004'' = (''****-****-****-****'', True) \<and>
   Do [card_mask] (JObject [(''field1'', JString ''5408-7430-0756-2004'')]) =
     (ActionPass, JObject [(''field1'', JString ''****-****-****-****'')])"
  by code_simp

end
